theory Spec2Isabelle
  imports Main
begin

section \<open>Goals, exceptions and the collaborators of OptiMSATSolver\<close>

text \<open>
  The module \<^verbatim>\<open>pysmt/optimization/optimsat.py\<close> orchestrates calls to collaborators that
  live outside the file: the goal classes, the term converter, the OptiMathSAT library
  (\<^verbatim>\<open>self._msat_lib\<close>), the incremental session (\<^verbatim>\<open>self.solve()\<close>) and the model class.
  The collaborators are parameters of the model; the orchestration is translated from the
  source line by line.
\<close>

text \<open>
  Modelled from the spec: the goal classes are not part of the file. Section 3 describes a
  goal as a tagged union over Minimize, Maximize, MinMax and MaxMin, and section 4.1 speaks
  of any other goal tag. The source reads a goal only through the four tag tests, the
  attribute \<^verbatim>\<open>terms\<close> and the method \<^verbatim>\<open>term()\<close>.
\<close>

datatype goal_tag = Minimize | Maximize | MinMax | MaxMin | Unsupported

datatype 't goal = Goal (tag: goal_tag) (goal_term: 't) (terms: "'t list")

definition is_minmax_goal :: "'t goal \<Rightarrow> bool" where
  "is_minmax_goal g = (tag g = MinMax)"

definition is_maxmin_goal :: "'t goal \<Rightarrow> bool" where
  "is_maxmin_goal g = (tag g = MaxMin)"

definition is_minimization_goal :: "'t goal \<Rightarrow> bool" where
  "is_minimization_goal g = (tag g = Minimize)"

definition is_maximization_goal :: "'t goal \<Rightarrow> bool" where
  "is_maximization_goal g = (tag g = Maximize)"

text \<open>
  The exceptions the source raises itself. \<open>TermCallError\<close> stands for whatever Python raises
  when a term object is applied like a function and the application fails.
\<close>

datatype 't exn =
    GoalNotSupportedError string "'t goal"
  | SolverReturnedUnknownResultError
  | PysmtUnboundedOptimizationError string
  | ValueError
  | TermCallError 't

text \<open>
  Modelled from the spec: the constants \<^verbatim>\<open>MSAT_OPT_UNKNOWN\<close> and \<^verbatim>\<open>MSAT_OPT_UNSAT\<close> belong to
  the library. Section 6 gives the objective status the three values Unknown, Unsat and
  Optimal.
\<close>

datatype msat_opt_result = MSAT_OPT_UNKNOWN | MSAT_OPT_UNSAT | MSAT_OPT_OPTIMAL

text \<open>
  The second component of the pair that \<^verbatim>\<open>optimize\<close> returns is a Python object, and Python
  is untyped. The model gives the object its shape: an objective status of the library, the
  value of one cost term, or a sequence of values of cost terms.
\<close>

datatype 'v optimum = Opt_result msat_opt_result | Cost_value 'v | Cost_values "'v list"

text \<open>The object is a sequence of \<open>n\<close> values; the object is one single item.\<close>

fun is_value_sequence :: "'v optimum \<Rightarrow> nat \<Rightarrow> bool" where
  "is_value_sequence (Cost_values vs) n = (length vs = n)"
| "is_value_sequence (Opt_result r) n = False"
| "is_value_sequence (Cost_value v) n = False"

fun is_single_item :: "'v optimum \<Rightarrow> bool" where
  "is_single_item (Cost_values vs) = False"
| "is_single_item (Opt_result r) = True"
| "is_single_item (Cost_value v) = True"

text \<open>
  The object bound to the Python variable that is applied to build an objective: one of the
  four constructors of the library or, since Python variables are untyped, a term.
\<close>

datatype 't callee =
    Msat_make_minmax
  | Msat_make_maxmin
  | Msat_make_minimize
  | Msat_make_maximize
  | Term_object 't

text \<open>The Python variable \<^verbatim>\<open>obj_fun\<close>: one converted term, or a list of converted terms.\<close>

datatype 'n obj_fun = Converted 'n | Converted_list "'n list"

text \<open>
  One call to a collaborator. \<open>Call_f f obj_fun extra\<close> is the application
  \<^verbatim>\<open>f(self.msat_env(), obj_fun, *extra)\<close>. The queries for unboundedness and strictness are
  always made for \<^verbatim>\<open>MSAT_OPTIMUM\<close>.
\<close>

datatype ('t, 'n, 'h) call =
    Msat_set_opt_priority string
  | Convert 't
  | Call_f "'t callee" "'n obj_fun" "bool list"
  | Msat_assert_objective 'h
  | Solve
  | Msat_objective_result 'h
  | Msat_objective_value_is_unbounded 'h
  | Msat_objective_value_is_strict 'h
  | Msat_load_objective_model 'h
  | Get_model

text \<open>
  The collaborators. The session is stateful, so every answer is a function of the calls
  made so far, the call being answered last. \<open>call_term\<close> is the application of a term
  object; \<open>None\<close> means that it raises.
\<close>

record ('t, 'n, 'h, 'm, 'v) solver =
  convert :: "'t \<Rightarrow> 'n"
  make_objective :: "('t, 'n, 'h) call list \<Rightarrow> 'h"
  call_term :: "('t, 'n, 'h) call list \<Rightarrow> 'h option"
  solve :: "('t, 'n, 'h) call list \<Rightarrow> bool"
  msat_objective_result :: "('t, 'n, 'h) call list \<Rightarrow> msat_opt_result"
  msat_objective_value_is_unbounded :: "('t, 'n, 'h) call list \<Rightarrow> int"
  msat_objective_value_is_strict :: "('t, 'n, 'h) call list \<Rightarrow> int"
  msat_load_objective_model :: "('t, 'n, 'h) call list \<Rightarrow> int"
  get_model :: "('t, 'n, 'h) call list \<Rightarrow> 'm"
  get_value :: "'m \<Rightarrow> 't \<Rightarrow> 'v"

section \<open>The comparison helper\<close>

text \<open>
  Lines 79-87. The type checker and the formula manager live in the environment; the type
  object is read through its three tests only. \<^verbatim>\<open>mgr.LE\<close> and \<^verbatim>\<open>mgr.BVULE\<close> either build a
  formula or raise (on arguments of different types, for one); \<^verbatim>\<open>_le\<close> catches nothing, so
  what they raise is raised by \<^verbatim>\<open>_le\<close>. Without a branch for the type, \<^verbatim>\<open>_le\<close> reaches its
  end and returns \<^verbatim>\<open>None\<close>.
\<close>

record ('t, 'ty, 'f, 'x) environment =
  get_type :: "'t \<Rightarrow> 'ty"
  is_int_type :: "'ty \<Rightarrow> bool"
  is_real_type :: "'ty \<Rightarrow> bool"
  is_bv_type :: "'ty \<Rightarrow> bool"
  LE :: "'t \<Rightarrow> 't \<Rightarrow> 'x + 'f"
  BVULE :: "'t \<Rightarrow> 't \<Rightarrow> 'x + 'f"

definition le :: "('t, 'ty, 'f, 'x) environment \<Rightarrow> 't \<Rightarrow> 't \<Rightarrow> 'x + 'f option" where
  "le env x y =
     (let otype = get_type env x in
      if is_int_type env otype \<or> is_real_type env otype then
        (case LE env x y of Inl e \<Rightarrow> Inl e | Inr fm \<Rightarrow> Inr (Some fm))
      else if is_bv_type env otype then
        (case BVULE env x y of Inl e \<Rightarrow> Inl e | Inr fm \<Rightarrow> Inr (Some fm))
      else Inr None)"

section \<open>Single-objective optimization\<close>

text \<open>
  Lines 91-112: the objective of a goal, as \<^verbatim>\<open>optimize\<close> builds it. The constructor is held
  in \<^verbatim>\<open>make_fun\<close>; the loop over \<^verbatim>\<open>goal.terms\<close> converts the terms in order.
\<close>

definition optimize_objective ::
  "('t, 'n, 'h, 'm, 'v) solver \<Rightarrow> 't goal \<Rightarrow> ('t, 'n, 'h) call list
     \<Rightarrow> ('t exn + 'h) \<times> ('t, 'n, 'h) call list" where
  "optimize_objective be goal log =
     (if is_minmax_goal goal \<or> is_maxmin_goal goal then
        let make_fun = (if is_minmax_goal goal then Msat_make_minmax else Msat_make_maxmin);
            cost_function = terms goal;
            obj_fun = map (convert be) cost_function;
            log1 = log @ map Convert cost_function;
            log2 = log1 @ [Call_f make_fun (Converted_list obj_fun) [False]]
        in (Inr (make_objective be log2), log2)
      else if is_minimization_goal goal \<or> is_maximization_goal goal then
        let make_fun = (if is_minimization_goal goal then Msat_make_minimize
                        else Msat_make_maximize);
            cost_function = goal_term goal;
            obj_fun = convert be cost_function;
            log1 = log @ [Convert cost_function];
            log2 = log1 @ [Call_f make_fun (Converted obj_fun) [False]]
        in (Inr (make_objective be log2), log2)
      else (Inl (GoalNotSupportedError ''optimathsat'' goal), log))"

text \<open>
  Lines 114-139: assert the objective, run one check, read the objective status and
  interpret it. The result \<open>Inr None\<close> is Python's \<^verbatim>\<open>None\<close>. Line 139 returns the model
  together with \<^verbatim>\<open>optres\<close>, the objective status read at line 116.
\<close>

definition optimize_result ::
  "('t, 'n, 'h, 'm, 'v) solver \<Rightarrow> 'h \<Rightarrow> ('t, 'n, 'h) call list
     \<Rightarrow> ('t exn + ('m \<times> 'v optimum) option) \<times> ('t, 'n, 'h) call list" where
  "optimize_result be msat_obj log =
     (let log1 = log @ [Msat_assert_objective msat_obj];
          log2 = log1 @ [Solve];
          log3 = log2 @ [Msat_objective_result msat_obj];
          optres = msat_objective_result be log3
      in if optres = MSAT_OPT_UNKNOWN then (Inl SolverReturnedUnknownResultError, log3)
         else if optres = MSAT_OPT_UNSAT then (Inr None, log3)
         else
           let log4 = log3 @ [Msat_objective_value_is_unbounded msat_obj];
               unbounded = msat_objective_value_is_unbounded be log4
           in if unbounded > 0 then
                (Inl (PysmtUnboundedOptimizationError ''The optimal value is unbounded''), log4)
              else
                let log5 = log4 @ [Msat_objective_value_is_strict msat_obj];
                    is_strict = msat_objective_value_is_strict be log5
                in if is_strict \<noteq> 0 then
                     (Inl (PysmtUnboundedOptimizationError
                             ''The optimal value is infinitesimal''), log5)
                   else
                     let log6 = log5 @ [Msat_load_objective_model msat_obj];
                         check = msat_load_objective_model be log6
                     in if check \<noteq> 0 then (Inl ValueError, log6)
                        else
                          let log7 = log6 @ [Get_model];
                              model = get_model be log7
                          in (Inr (Some (model, Opt_result optres)), log7))"

definition optimize ::
  "('t, 'n, 'h, 'm, 'v) solver \<Rightarrow> 't goal \<Rightarrow> ('t, 'n, 'h) call list
     \<Rightarrow> ('t exn + ('m \<times> 'v optimum) option) \<times> ('t, 'n, 'h) call list" where
  "optimize be goal log =
     (case optimize_objective be goal log of
        (Inl e, log1) \<Rightarrow> (Inl e, log1)
      | (Inr msat_obj, log1) \<Rightarrow> optimize_result be msat_obj log1)"

section \<open>Asserting the objectives of several goals\<close>

text \<open>
  Lines 145-169, 185-209 and 221-245 are the same text. Here the constructor is held in
  \<^verbatim>\<open>f\<close>, and the loop over \<^verbatim>\<open>g.terms\<close> uses \<^verbatim>\<open>f\<close> as its loop variable too: every
  iteration rebinds \<^verbatim>\<open>f\<close> to the term it converts.
\<close>

fun convert_terms ::
  "('t, 'n, 'h, 'm, 'v) solver \<Rightarrow> 't list
     \<Rightarrow> 't callee \<times> 'n list \<times> ('t, 'n, 'h) call list
     \<Rightarrow> 't callee \<times> 'n list \<times> ('t, 'n, 'h) call list" where
  "convert_terms be [] (f, obj_fun, log) = (f, obj_fun, log)"
| "convert_terms be (t # ts) (f, obj_fun, log) =
     convert_terms be ts (Term_object t, obj_fun @ [convert be t], log @ [Convert t])"

text \<open>
  Lines 167-169: \<^verbatim>\<open>msat_obj = f(self.msat_env(), obj_fun)\<close>, then the objective is asserted.
\<close>

definition apply_f ::
  "('t, 'n, 'h, 'm, 'v) solver \<Rightarrow> 't callee \<Rightarrow> 'n obj_fun \<Rightarrow> ('t, 'n, 'h) call list
     \<Rightarrow> ('t exn + 'h) \<times> ('t, 'n, 'h) call list" where
  "apply_f be f obj_fun log =
     (let log1 = log @ [Call_f f obj_fun []] in
      case f of
        Term_object t \<Rightarrow>
          (case call_term be log1 of
             None \<Rightarrow> (Inl (TermCallError t), log1)
           | Some msat_obj \<Rightarrow> (Inr msat_obj, log1 @ [Msat_assert_objective msat_obj]))
      | _ \<Rightarrow>
          (let msat_obj = make_objective be log1
           in (Inr msat_obj, log1 @ [Msat_assert_objective msat_obj])))"

definition assert_goal ::
  "('t, 'n, 'h, 'm, 'v) solver \<Rightarrow> 't goal \<Rightarrow> ('t, 'n, 'h) call list
     \<Rightarrow> ('t exn + 'h) \<times> ('t, 'n, 'h) call list" where
  "assert_goal be g log =
     (if is_minmax_goal g \<or> is_maxmin_goal g then
        let f = (if is_minmax_goal g then Msat_make_minmax else Msat_make_maxmin);
            cost_function = terms g
        in (case convert_terms be cost_function (f, [], log) of
              (f', obj_fun, log1) \<Rightarrow> apply_f be f' (Converted_list obj_fun) log1)
      else if is_minimization_goal g \<or> is_maximization_goal g then
        let f = (if is_minimization_goal g then Msat_make_minimize else Msat_make_maximize);
            cost_function = goal_term g;
            obj_fun = convert be cost_function
        in apply_f be f (Converted obj_fun) (log @ [Convert cost_function])
      else (Inl (GoalNotSupportedError ''optimathsat'' g), log))"

fun assert_goals ::
  "('t, 'n, 'h, 'm, 'v) solver \<Rightarrow> 't goal list \<Rightarrow> 'h list \<Rightarrow> ('t, 'n, 'h) call list
     \<Rightarrow> ('t exn + 'h list) \<times> ('t, 'n, 'h) call list" where
  "assert_goals be [] msat_objs log = (Inr msat_objs, log)"
| "assert_goals be (g # gs) msat_objs log =
     (case assert_goal be g log of
        (Inl e, log1) \<Rightarrow> (Inl e, log1)
      | (Inr msat_obj, log1) \<Rightarrow> assert_goals be gs (msat_objs @ [msat_obj]) log1)"

section \<open>Lexicographic, Pareto and boxed optimization\<close>

text \<open>Lines 181-215.\<close>

definition lexicographic_optimize ::
  "('t, 'n, 'h, 'm, 'v) solver \<Rightarrow> 't goal list \<Rightarrow> ('t, 'n, 'h) call list
     \<Rightarrow> ('t exn + 'm option \<times> 'v list option) \<times> ('t, 'n, 'h) call list" where
  "lexicographic_optimize be goals log =
     (case assert_goals be goals [] (log @ [Msat_set_opt_priority ''lex'']) of
        (Inl e, log1) \<Rightarrow> (Inl e, log1)
      | (Inr msat_objs, log1) \<Rightarrow>
          (let log2 = log1 @ [Solve];
               rt = solve be log2
           in if rt then
                let log3 = log2 @ [Get_model];
                    model = get_model be log3
                in (Inr (Some model,
                         Some (map (\<lambda>x. get_value be model (goal_term x)) goals)), log3)
              else (Inr (None, None), log2)))"

text \<open>
  Lines 171-178: the loop of \<^verbatim>\<open>pareto_optimize\<close> over the goals. It either executes
  \<^verbatim>\<open>return None\<close> or runs to its end with the dictionary \<^verbatim>\<open>models\<close>.
\<close>

datatype ('r, 's) loop_exit = Returned 'r | Fell_through 's

fun pareto_loop ::
  "('t, 'n, 'h, 'm, 'v) solver \<Rightarrow> 't goal list \<Rightarrow> ('t goal \<rightharpoonup> 'm \<times> 'v)
     \<Rightarrow> ('t, 'n, 'h) call list
     \<Rightarrow> (('t goal \<rightharpoonup> 'm \<times> 'v) option, 't goal \<rightharpoonup> 'm \<times> 'v) loop_exit
          \<times> ('t, 'n, 'h) call list" where
  "pareto_loop be [] models log = (Fell_through models, log)"
| "pareto_loop be (goal # rest) models log =
     (let log1 = log @ [Solve];
          rt = solve be log1
      in if rt then
           let log2 = log1 @ [Get_model];
               model = get_model be log2
           in pareto_loop be rest
                (models(goal \<mapsto> (model, get_value be model (goal_term goal)))) log2
         else (Returned None, log1))"

text \<open>
  Lines 141-178. No statement follows the loop, so a call that runs the loop to its end
  returns \<^verbatim>\<open>None\<close>, as every Python function without a \<^verbatim>\<open>return\<close> does.
\<close>

definition pareto_optimize ::
  "('t, 'n, 'h, 'm, 'v) solver \<Rightarrow> 't goal list \<Rightarrow> ('t, 'n, 'h) call list
     \<Rightarrow> ('t exn + ('t goal \<rightharpoonup> 'm \<times> 'v) option) \<times> ('t, 'n, 'h) call list" where
  "pareto_optimize be goals log =
     (case assert_goals be goals [] (log @ [Msat_set_opt_priority ''par'']) of
        (Inl e, log1) \<Rightarrow> (Inl e, log1)
      | (Inr msat_objs, log1) \<Rightarrow>
          (case pareto_loop be goals Map.empty log1 of
             (Returned r, log2) \<Rightarrow> (Inr r, log2)
           | (Fell_through models, log2) \<Rightarrow> (Inr None, log2)))"

text \<open>
  Lines 217-258. The function contains \<^verbatim>\<open>yield\<close>, so calling it runs nothing: it returns a
  generator, and the body runs when the generator is iterated. A generator is created,
  suspended at the \<^verbatim>\<open>yield\<close>, or finished (by \<^verbatim>\<open>return\<close> or by an exception). Nothing that
  is live at the \<^verbatim>\<open>yield\<close> is read before it is assigned again.
\<close>

datatype 't generator = Created "'t goal list" | Suspended | Finished

datatype ('t, 'm) next_result = Yielded 'm | StopIteration | Raised "'t exn"

definition boxed_optimization :: "'t goal list \<Rightarrow> 't generator" where
  "boxed_optimization goals = Created goals"

text \<open>
  Lines 246-247 and 253-255, followed by the test of the \<^verbatim>\<open>while\<close>: a check, the model, and
  then either the \<^verbatim>\<open>yield\<close> or the \<^verbatim>\<open>return\<close> after the loop.
\<close>

definition boxed_check ::
  "('t, 'n, 'h, 'm, 'v) solver \<Rightarrow> ('t, 'n, 'h) call list
     \<Rightarrow> (('t, 'm) next_result \<times> 't generator) \<times> ('t, 'n, 'h) call list" where
  "boxed_check be log =
     (let log1 = log @ [Solve];
          rt = solve be log1;
          log2 = log1 @ [Get_model];
          model = get_model be log2
      in if rt then ((Yielded model, Suspended), log2)
         else ((StopIteration, Finished), log2))"

text \<open>Python's \<^verbatim>\<open>next\<close> on the generator.\<close>

fun next_boxed ::
  "('t, 'n, 'h, 'm, 'v) solver \<Rightarrow> 't generator \<Rightarrow> ('t, 'n, 'h) call list
     \<Rightarrow> (('t, 'm) next_result \<times> 't generator) \<times> ('t, 'n, 'h) call list" where
  "next_boxed be (Created goals) log =
     (case assert_goals be goals [] (log @ [Msat_set_opt_priority ''box'']) of
        (Inl e, log1) \<Rightarrow> ((Raised e, Finished), log1)
      | (Inr msat_objs, log1) \<Rightarrow> boxed_check be log1)"
| "next_boxed be Suspended log = boxed_check be log"
| "next_boxed be Finished log = ((StopIteration, Finished), log)"

text \<open>Iterating the generator \<open>n\<close> times: the results of the \<open>n\<close> calls of \<^verbatim>\<open>next\<close>.\<close>

fun iterate ::
  "('t, 'n, 'h, 'm, 'v) solver \<Rightarrow> nat \<Rightarrow> 't generator \<Rightarrow> ('t, 'n, 'h) call list
     \<Rightarrow> ('t, 'm) next_result list \<times> 't generator \<times> ('t, 'n, 'h) call list" where
  "iterate be 0 gen log = ([], gen, log)"
| "iterate be (Suc n) gen log =
     (case next_boxed be gen log of
        ((r, gen1), log1) \<Rightarrow>
          (case iterate be n gen1 log1 of
             (rs, gen2, log2) \<Rightarrow> (r # rs, gen2, log2)))"

text \<open>
  The outcomes of the satisfiability checks among the calls \<open>new\<close>, made after the calls
  \<open>old\<close>, in the order of the checks.
\<close>

fun checks ::
  "('t, 'n, 'h, 'm, 'v) solver \<Rightarrow> ('t, 'n, 'h) call list \<Rightarrow> ('t, 'n, 'h) call list
     \<Rightarrow> bool list" where
  "checks be old [] = []"
| "checks be old (c # new) =
     (if c = Solve then [solve be (old @ [c])] else []) @ checks be (old @ [c]) new"

text \<open>
  The lazy sequence of section 4.5 of the specification, in its words, as the results of
  \<open>n\<close> iterations after the calls \<open>log\<close>: each iteration runs one check; while the check
  succeeds the iteration produces the model read after it; the moment a check fails the
  sequence ends, and it does not start again.
\<close>

fun boxed_spec ::
  "('t, 'n, 'h, 'm, 'v) solver \<Rightarrow> nat \<Rightarrow> ('t, 'n, 'h) call list \<Rightarrow> ('t, 'm) next_result list"
  where
  "boxed_spec be 0 log = []"
| "boxed_spec be (Suc n) log =
     (if solve be (log @ [Solve]) then
        Yielded (get_model be (log @ [Solve, Get_model]))
          # boxed_spec be n (log @ [Solve, Get_model])
      else replicate (Suc n) StopIteration)"

section \<open>Concrete collaborators\<close>

text \<open>
  A small type universe and environment: the term \<open>''p''\<close> is Boolean, every other term an
  integer. The formula manager builds a comparison of two integer terms and raises a type
  error on anything else.
\<close>

datatype pysmt_type = BoolType | IntType | RealType | BVType nat

datatype formula = Le_formula string string | Bvule_formula string string

datatype mgr_error = PysmtTypeError

definition example_type :: "string \<Rightarrow> pysmt_type" where
  "example_type t = (if t = ''p'' then BoolType else IntType)"

definition example_environment :: "(string, pysmt_type, formula, mgr_error) environment" where
  "example_environment =
     \<lparr> get_type = example_type,
       is_int_type = (\<lambda>ty. ty = IntType),
       is_real_type = (\<lambda>ty. ty = RealType),
       is_bv_type = (\<lambda>ty. case ty of BVType w \<Rightarrow> True | _ \<Rightarrow> False),
       LE = (\<lambda>x y. if example_type x = IntType \<and> example_type y = IntType
                    then Inr (Le_formula x y) else Inl PysmtTypeError),
       BVULE = (\<lambda>x y. Inl PysmtTypeError) \<rparr>"

text \<open>
  A session whose first two checks succeed and whose later checks fail. Objective handles
  and models are numbered by the position of the call that produced them; every objective
  is optimal, bounded and attained; applying a term object raises.
\<close>

definition example_solver :: "(string, string, nat, nat, int) solver" where
  "example_solver =
     \<lparr> convert = (\<lambda>t. ''msat_'' @ t),
       make_objective = length,
       call_term = (\<lambda>log. None),
       solve = (\<lambda>log. length (filter (\<lambda>c. c = Solve) log) \<le> 2),
       msat_objective_result = (\<lambda>log. MSAT_OPT_OPTIMAL),
       msat_objective_value_is_unbounded = (\<lambda>log. 0),
       msat_objective_value_is_strict = (\<lambda>log. 0),
       msat_load_objective_model = (\<lambda>log. 0),
       get_model = length,
       get_value = (\<lambda>m t. int m + int (length t)) \<rparr>"

text \<open>
  Variants of the session: one whose objective status is always Unknown, one whose status
  is always Unsat, one that reports every optimum both unbounded and strict, and one that
  reports every optimum strict but bounded.
\<close>

definition unknown_solver :: "(string, string, nat, nat, int) solver" where
  "unknown_solver = example_solver\<lparr>msat_objective_result := \<lambda>log. MSAT_OPT_UNKNOWN\<rparr>"

definition unsat_solver :: "(string, string, nat, nat, int) solver" where
  "unsat_solver = example_solver\<lparr>msat_objective_result := \<lambda>log. MSAT_OPT_UNSAT\<rparr>"

definition unbounded_solver :: "(string, string, nat, nat, int) solver" where
  "unbounded_solver =
     example_solver\<lparr>msat_objective_value_is_unbounded := \<lambda>log. 1,
                    msat_objective_value_is_strict := \<lambda>log. 1\<rparr>"

definition strict_solver :: "(string, string, nat, nat, int) solver" where
  "strict_solver = example_solver\<lparr>msat_objective_value_is_strict := \<lambda>log. 1\<rparr>"

section \<open>Basic facts about the model\<close>

text \<open>The definitions that a run on concrete collaborators unfolds.\<close>

lemmas run_defs =
  optimize_def optimize_objective_def optimize_result_def assert_goal_def apply_f_def
  lexicographic_optimize_def pareto_optimize_def boxed_optimization_def boxed_check_def
  is_minmax_goal_def is_maxmin_goal_def is_minimization_goal_def is_maximization_goal_def
  example_solver_def unknown_solver_def unsat_solver_def unbounded_solver_def
  strict_solver_def Let_def

text \<open>
  The loop over the terms converts every term in order, and leaves \<^verbatim>\<open>f\<close> bound to the last
  term when there is one.
\<close>

lemma convert_terms_eq:
  "convert_terms be ts (f, obj_fun, log) =
     (if ts = [] then f else Term_object (last ts),
      obj_fun @ map (convert be) ts, log @ map Convert ts)"
  by (induction ts arbitrary: f obj_fun log) auto

text \<open>
  Asserting objectives runs no satisfiability check, and only extends the calls made so
  far.
\<close>

lemma checks_append:
  "checks be old (a @ b) = checks be old a @ checks be (old @ a) b"
  by (induction a arbitrary: old) auto

lemma checks_no_solve: "Solve \<notin> set evs \<Longrightarrow> checks be old evs = []"
  by (induction evs arbitrary: old) auto

lemma apply_f_log:
  assumes "apply_f be f x log = (r, log')"
  shows "\<exists>evs. log' = log @ evs \<and> Solve \<notin> set evs"
  using assms
  by (auto simp: apply_f_def Let_def split: callee.splits option.splits)

lemma assert_goal_log:
  assumes "assert_goal be g log = (r, log')"
  shows "\<exists>evs. log' = log @ evs \<and> Solve \<notin> set evs"
proof (cases "is_minmax_goal g \<or> is_maxmin_goal g")
  case True
  with assms obtain f where
    "apply_f be f (Converted_list (map (convert be) (terms g)))
       (log @ map Convert (terms g)) = (r, log')"
    by (simp add: assert_goal_def Let_def convert_terms_eq)
  from apply_f_log [OF this] obtain evs where
    "log' = (log @ map Convert (terms g)) @ evs" "Solve \<notin> set evs" by blast
  then have "log' = log @ (map Convert (terms g) @ evs)"
    "Solve \<notin> set (map Convert (terms g) @ evs)" by auto
  then show ?thesis by blast
next
  case False
  show ?thesis
  proof (cases "is_minimization_goal g \<or> is_maximization_goal g")
    case True
    with False assms obtain f where
      "apply_f be f (Converted (convert be (goal_term g))) (log @ [Convert (goal_term g)])
         = (r, log')"
      by (simp add: assert_goal_def Let_def)
    from apply_f_log [OF this] obtain evs where
      "log' = (log @ [Convert (goal_term g)]) @ evs" "Solve \<notin> set evs" by blast
    then have "log' = log @ (Convert (goal_term g) # evs)"
      "Solve \<notin> set (Convert (goal_term g) # evs)" by auto
    then show ?thesis by blast
  next
    case F2: False
    with False assms have "log' = log @ []" by (simp add: assert_goal_def)
    then show ?thesis by force
  qed
qed

lemma assert_goals_log:
  "assert_goals be gs objs log = (r, log') \<Longrightarrow> \<exists>evs. log' = log @ evs \<and> Solve \<notin> set evs"
proof (induction gs arbitrary: objs log)
  case Nil
  then show ?case by simp
next
  case (Cons g gs)
  obtain r1 l1 where g1: "assert_goal be g log = (r1, l1)" by (cases "assert_goal be g log")
  from assert_goal_log [OF g1] obtain e1 where e1: "l1 = log @ e1" "Solve \<notin> set e1" by blast
  show ?case
  proof (cases r1)
    case (Inl e)
    with Cons.prems g1 have "log' = l1" by simp
    with e1 show ?thesis by blast
  next
    case (Inr h)
    with Cons.prems g1 have "assert_goals be gs (objs @ [h]) l1 = (r, log')" by simp
    from Cons.IH [OF this] obtain e2 where "log' = l1 @ e2" "Solve \<notin> set e2" by blast
    with e1 have "log' = log @ (e1 @ e2)" "Solve \<notin> set (e1 @ e2)" by auto
    then show ?thesis by blast
  qed
qed

lemma assert_goals_append:
  "assert_goals be (pre @ rest) objs log =
     (case assert_goals be pre objs log of
        (Inl e, log1) \<Rightarrow> (Inl e, log1)
      | (Inr objs1, log1) \<Rightarrow> assert_goals be rest objs1 log1)"
  by (induction pre arbitrary: objs log) (auto split: prod.splits sum.splits)

lemma assert_goal_unsupported:
  "tag g = Unsupported \<Longrightarrow>
     assert_goal be g log = (Inl (GoalNotSupportedError ''optimathsat'' g), log)"
  by (simp add: assert_goal_def is_minmax_goal_def is_maxmin_goal_def
      is_minimization_goal_def is_maximization_goal_def)

lemma assert_goals_unsupported:
  assumes "tag g = Unsupported" and "assert_goals be pre [] log0 = (Inr objs, log1)"
  shows "assert_goals be (pre @ g # post) [] log0
           = (Inl (GoalNotSupportedError ''optimathsat'' g), log1)"
  using assms by (simp add: assert_goals_append assert_goal_unsupported)

lemma optimize_objective_supported:
  assumes "tag g \<noteq> Unsupported"
  shows "\<exists>msat_obj log1. optimize_objective be g log = (Inr msat_obj, log1)"
  using assms
  by (cases "tag g")
    (simp_all add: optimize_objective_def Let_def is_minmax_goal_def is_maxmin_goal_def
      is_minimization_goal_def is_maximization_goal_def)

text \<open>
  What asserting one goal does, by kind of goal. For a MinMax or MaxMin goal with at least
  one term the object applied is the last term; for a Minimize or Maximize goal it is the
  constructor of the library, which returns a handle.
\<close>

lemma assert_goal_vector:
  assumes "tag g = MinMax \<or> tag g = MaxMin" and "terms g \<noteq> []"
  shows "assert_goal be g log =
           apply_f be (Term_object (last (terms g)))
             (Converted_list (map (convert be) (terms g))) (log @ map Convert (terms g))"
  using assms
  by (auto simp: assert_goal_def Let_def convert_terms_eq is_minmax_goal_def is_maxmin_goal_def)

lemma assert_goal_scalar:
  assumes "tag g = Minimize \<or> tag g = Maximize"
  shows "\<exists>h log1. assert_goal be g log = (Inr h, log1)"
  using assms
  by (auto simp: assert_goal_def apply_f_def Let_def is_minmax_goal_def is_maxmin_goal_def
      is_minimization_goal_def is_maximization_goal_def)

lemma assert_goals_scalar:
  assumes "\<forall>g\<in>set goals. tag g = Minimize \<or> tag g = Maximize"
  shows "\<exists>objs log1. assert_goals be goals acc log = (Inr objs, log1)"
  using assms
proof (induction goals arbitrary: acc log)
  case Nil
  then show ?case by simp
next
  case (Cons g gs)
  then have "tag g = Minimize \<or> tag g = Maximize" by simp
  from assert_goal_scalar [OF this, of be log] obtain h l1
    where "assert_goal be g log = (Inr h, l1)" by blast
  moreover from Cons obtain objs log1
    where "assert_goals be gs (acc @ [h]) l1 = (Inr objs, log1)" by force
  ultimately show ?case by simp
qed

section \<open>The outcomes of \<^verbatim>\<open>optimize\<close>\<close>

text \<open>
  Claim C4. For every supported goal, \<^verbatim>\<open>optimize\<close> builds an objective, asserts it, runs one
  check and asks for the objective status. It raises \<^verbatim>\<open>SolverReturnedUnknownResultError\<close>
  exactly when that status is Unknown, and it returns \<^verbatim>\<open>None\<close> exactly when that status is
  Unsat: neither outcome is ever turned into the other.
\<close>

theorem optimize_unknown_unsat:
  assumes "tag g \<noteq> Unsupported"
  shows "\<exists>msat_obj log1.
           optimize_objective be g log = (Inr msat_obj, log1) \<and>
           (fst (optimize be g log) = Inl SolverReturnedUnknownResultError
              \<longleftrightarrow> msat_objective_result be
                    (log1 @ [Msat_assert_objective msat_obj, Solve,
                             Msat_objective_result msat_obj]) = MSAT_OPT_UNKNOWN) \<and>
           (fst (optimize be g log) = Inr None
              \<longleftrightarrow> msat_objective_result be
                    (log1 @ [Msat_assert_objective msat_obj, Solve,
                             Msat_objective_result msat_obj]) = MSAT_OPT_UNSAT)"
proof -
  from optimize_objective_supported [OF assms, of be log] obtain msat_obj log1
    where obj: "optimize_objective be g log = (Inr msat_obj, log1)" by blast
  then have "optimize be g log = optimize_result be msat_obj log1"
    by (simp add: optimize_def)
  then have "(fst (optimize be g log) = Inl SolverReturnedUnknownResultError
              \<longleftrightarrow> msat_objective_result be
                    (log1 @ [Msat_assert_objective msat_obj, Solve,
                             Msat_objective_result msat_obj]) = MSAT_OPT_UNKNOWN)"
    and "(fst (optimize be g log) = Inr None
              \<longleftrightarrow> msat_objective_result be
                    (log1 @ [Msat_assert_objective msat_obj, Solve,
                             Msat_objective_result msat_obj]) = MSAT_OPT_UNSAT)"
    by (auto simp: optimize_result_def Let_def)
  with obj show ?thesis by blast
qed

theorem optimize_unknown_unsat_witness:
  "tag (Goal Minimize ''x'' []) \<noteq> Unsupported \<and>
   fst (optimize unknown_solver (Goal Minimize ''x'' []) [])
     = Inl SolverReturnedUnknownResultError \<and>
   fst (optimize unsat_solver (Goal Minimize ''x'' []) []) = Inr None \<and>
   fst (optimize example_solver (Goal Minimize ''x'' []) []) \<noteq> Inr None \<and>
   fst (optimize example_solver (Goal Minimize ''x'' []) [])
     \<noteq> Inl SolverReturnedUnknownResultError"
proof -
  have h: "tag (Goal Minimize ''x'' []) \<noteq> Unsupported" by simp
  have u: "msat_objective_result unknown_solver l = MSAT_OPT_UNKNOWN"
    and v: "msat_objective_result unsat_solver l = MSAT_OPT_UNSAT"
    and w: "msat_objective_result example_solver l = MSAT_OPT_OPTIMAL" for l
    by (simp_all add: unknown_solver_def unsat_solver_def example_solver_def)
  from optimize_unknown_unsat [OF h, of unknown_solver "[]"]
    optimize_unknown_unsat [OF h, of unsat_solver "[]"]
    optimize_unknown_unsat [OF h, of example_solver "[]"]
  show ?thesis using h by (auto simp: u v w)
qed

text \<open>
  Claim C5. For every supported goal whose objective status is Optimal: when the library
  reports the optimum unbounded (a positive answer), \<^verbatim>\<open>optimize\<close> raises
  \<^verbatim>\<open>PysmtUnboundedOptimizationError\<close> with the message about unboundedness, and the
  strictness query is not even made; when the optimum is not reported unbounded and is
  reported strict, it raises the same exception with the message about an infinitesimal
  optimum, the strictness query coming after the unboundedness query.
\<close>

theorem optimize_unbounded_before_strict:
  assumes "tag g \<noteq> Unsupported"
  shows "\<exists>msat_obj log1 log3.
           optimize_objective be g log = (Inr msat_obj, log1) \<and>
           log3 = log1 @ [Msat_assert_objective msat_obj, Solve,
                          Msat_objective_result msat_obj] \<and>
           (msat_objective_result be log3 = MSAT_OPT_OPTIMAL \<longrightarrow>
              (0 < msat_objective_value_is_unbounded be
                     (log3 @ [Msat_objective_value_is_unbounded msat_obj]) \<longrightarrow>
                 optimize be g log =
                   (Inl (PysmtUnboundedOptimizationError ''The optimal value is unbounded''),
                    log3 @ [Msat_objective_value_is_unbounded msat_obj])) \<and>
              (msat_objective_value_is_unbounded be
                     (log3 @ [Msat_objective_value_is_unbounded msat_obj]) \<le> 0 \<and>
               msat_objective_value_is_strict be
                     (log3 @ [Msat_objective_value_is_unbounded msat_obj,
                              Msat_objective_value_is_strict msat_obj]) \<noteq> 0 \<longrightarrow>
                 optimize be g log =
                   (Inl (PysmtUnboundedOptimizationError
                           ''The optimal value is infinitesimal''),
                    log3 @ [Msat_objective_value_is_unbounded msat_obj,
                            Msat_objective_value_is_strict msat_obj])))"
proof -
  from optimize_objective_supported [OF assms, of be log] obtain msat_obj log1
    where obj: "optimize_objective be g log = (Inr msat_obj, log1)" by blast
  then have "optimize be g log = optimize_result be msat_obj log1"
    by (simp add: optimize_def)
  with obj show ?thesis
    by (auto simp: optimize_result_def Let_def)
qed

theorem optimize_unbounded_before_strict_witness:
  "tag (Goal Maximize ''x'' []) \<noteq> Unsupported \<and>
   fst (optimize unbounded_solver (Goal Maximize ''x'' []) [])
     = Inl (PysmtUnboundedOptimizationError ''The optimal value is unbounded'') \<and>
   fst (optimize strict_solver (Goal Maximize ''x'' []) [])
     = Inl (PysmtUnboundedOptimizationError ''The optimal value is infinitesimal'')"
proof -
  have h: "tag (Goal Maximize ''x'' []) \<noteq> Unsupported" by simp
  have u: "msat_objective_result unbounded_solver l = MSAT_OPT_OPTIMAL"
    "msat_objective_value_is_unbounded unbounded_solver l = 1"
    "msat_objective_value_is_strict unbounded_solver l = 1"
    and v: "msat_objective_result strict_solver l = MSAT_OPT_OPTIMAL"
    "msat_objective_value_is_unbounded strict_solver l = 0"
    "msat_objective_value_is_strict strict_solver l = 1" for l
    by (simp_all add: unbounded_solver_def strict_solver_def example_solver_def)
  from optimize_unbounded_before_strict [OF h, of unbounded_solver "[]"]
    optimize_unbounded_before_strict [OF h, of strict_solver "[]"]
  show ?thesis using h by (auto simp: u v)
qed

text \<open>
  Claim C3, as amended. Whenever \<^verbatim>\<open>optimize\<close> returns a pair, for a goal of any supported
  tag and with any number of terms, the second component is one single item; for a MinMax
  or MaxMin goal it is not a sequence with one value for each term of the goal.
\<close>

theorem optimize_value_single_item:
  assumes "optimize be g log = (Inr (Some (model, val)), log')"
  shows "is_single_item val \<and> \<not> is_value_sequence val (length (terms g))"
proof -
  obtain r log1 where obj: "optimize_objective be g log = (r, log1)"
    by (cases "optimize_objective be g log")
  show ?thesis
  proof (cases r)
    case (Inl e)
    with obj assms show ?thesis by (simp add: optimize_def)
  next
    case (Inr msat_obj)
    with obj assms have "optimize_result be msat_obj log1 = (Inr (Some (model, val)), log')"
      by (simp add: optimize_def)
    then obtain optres where "val = Opt_result optres"
      by (auto simp: optimize_result_def Let_def split: if_splits)
    then show ?thesis by simp
  qed
qed

theorem optimize_value_single_item_witness:
  "optimize example_solver (Goal MinMax ''z'' [''x'', ''y'']) []
     = (Inr (Some (10, Opt_result MSAT_OPT_OPTIMAL)),
        [Convert ''x'', Convert ''y'',
         Call_f Msat_make_minmax (Converted_list [''msat_x'', ''msat_y'']) [False],
         Msat_assert_objective 3, Solve, Msat_objective_result 3,
         Msat_objective_value_is_unbounded 3, Msat_objective_value_is_strict 3,
         Msat_load_objective_model 3, Get_model]) \<and>
   is_single_item (Opt_result MSAT_OPT_OPTIMAL :: int optimum) \<and>
   \<not> is_value_sequence (Opt_result MSAT_OPT_OPTIMAL :: int optimum)
       (length (terms (Goal MinMax ''z'' [''x'', ''y''])))"
proof -
  have h: "optimize example_solver (Goal MinMax ''z'' [''x'', ''y'']) []
     = (Inr (Some (10, Opt_result MSAT_OPT_OPTIMAL)),
        [Convert ''x'', Convert ''y'',
         Call_f Msat_make_minmax (Converted_list [''msat_x'', ''msat_y'']) [False],
         Msat_assert_objective 3, Solve, Msat_objective_result 3,
         Msat_objective_value_is_unbounded 3, Msat_objective_value_is_strict 3,
         Msat_load_objective_model 3, Get_model])"
    by (simp add: run_defs)
  from h optimize_value_single_item [OF h] show ?thesis by (rule conjI)
qed

text \<open>
  Claim C3 as stated fails. It asks, for a MinMax goal, for a sequence of values as long as
  the term sequence of the goal. For a MinMax goal with two terms, \<^verbatim>\<open>optimize\<close> reaches the
  Optimal outcome and the second component of its pair is no sequence of two values.
\<close>

theorem optimize_value_counterexample:
  "fst (optimize example_solver (Goal MinMax ''z'' [''x'', ''y'']) [])
     = Inr (Some (10, Opt_result MSAT_OPT_OPTIMAL)) \<and>
   length (terms (Goal MinMax ''z'' [''x'', ''y''])) = 2 \<and>
   (case fst (optimize example_solver (Goal MinMax ''z'' [''x'', ''y'']) []) of
      Inr (Some (model, val)) \<Rightarrow>
        \<not> is_value_sequence val (length (terms (Goal MinMax ''z'' [''x'', ''y''])))
    | Inr None \<Rightarrow> False
    | Inl e \<Rightarrow> False)"
  by (simp add: run_defs)

section \<open>Building the objective of a goal\<close>

text \<open>
  Claim C9. A goal whose tag is none of Minimize, Maximize, MinMax and MaxMin makes each of
  the four functions raise \<^verbatim>\<open>GoalNotSupportedError\<close> with the name \<open>''optimathsat''\<close> and the
  goal itself. \<^verbatim>\<open>optimize\<close> raises before it calls any collaborator. The other three
  functions raise when their loop reaches the goal, that is after the goals before it have
  been asserted: the calls made are exactly those for the earlier goals, so nothing is
  converted, built or asserted for the offending goal and nothing is tried again. For
  \<^verbatim>\<open>boxed_optimization\<close>, a generator, the body runs at the first \<^verbatim>\<open>next\<close>.
\<close>

theorem unsupported_goal_raises:
  assumes "tag g = Unsupported"
  shows "optimize be g log = (Inl (GoalNotSupportedError ''optimathsat'' g), log) \<and>
         (assert_goals be pre [] (log @ [Msat_set_opt_priority ''lex''])
            = (Inr objs_lex, log_lex) \<longrightarrow>
            lexicographic_optimize be (pre @ g # post) log
              = (Inl (GoalNotSupportedError ''optimathsat'' g), log_lex)) \<and>
         (assert_goals be pre [] (log @ [Msat_set_opt_priority ''par''])
            = (Inr objs_par, log_par) \<longrightarrow>
            pareto_optimize be (pre @ g # post) log
              = (Inl (GoalNotSupportedError ''optimathsat'' g), log_par)) \<and>
         (assert_goals be pre [] (log @ [Msat_set_opt_priority ''box''])
            = (Inr objs_box, log_box) \<longrightarrow>
            next_boxed be (boxed_optimization (pre @ g # post)) log
              = ((Raised (GoalNotSupportedError ''optimathsat'' g), Finished), log_box))"
proof -
  have "optimize be g log = (Inl (GoalNotSupportedError ''optimathsat'' g), log)"
    using assms
    by (simp add: optimize_def optimize_objective_def is_minmax_goal_def is_maxmin_goal_def
        is_minimization_goal_def is_maximization_goal_def)
  moreover have "lexicographic_optimize be (pre @ g # post) log
              = (Inl (GoalNotSupportedError ''optimathsat'' g), log_lex)"
    if "assert_goals be pre [] (log @ [Msat_set_opt_priority ''lex'']) = (Inr objs_lex, log_lex)"
    using assert_goals_unsupported [OF assms that]
    by (simp add: lexicographic_optimize_def)
  moreover have "pareto_optimize be (pre @ g # post) log
              = (Inl (GoalNotSupportedError ''optimathsat'' g), log_par)"
    if "assert_goals be pre [] (log @ [Msat_set_opt_priority ''par'']) = (Inr objs_par, log_par)"
    using assert_goals_unsupported [OF assms that]
    by (simp add: pareto_optimize_def)
  moreover have "next_boxed be (boxed_optimization (pre @ g # post)) log
              = ((Raised (GoalNotSupportedError ''optimathsat'' g), Finished), log_box)"
    if "assert_goals be pre [] (log @ [Msat_set_opt_priority ''box'']) = (Inr objs_box, log_box)"
    using assert_goals_unsupported [OF assms that]
    by (simp add: boxed_optimization_def)
  ultimately show ?thesis by blast
qed

theorem unsupported_goal_raises_witness:
  "tag (Goal Unsupported ''u'' []) = Unsupported \<and>
   assert_goals example_solver [Goal Minimize ''x'' []] [] [Msat_set_opt_priority ''lex'']
     = (Inr [3], [Msat_set_opt_priority ''lex'', Convert ''x'',
                  Call_f Msat_make_minimize (Converted ''msat_x'') [],
                  Msat_assert_objective 3]) \<and>
   assert_goals example_solver [Goal Minimize ''x'' []] [] [Msat_set_opt_priority ''par'']
     = (Inr [3], [Msat_set_opt_priority ''par'', Convert ''x'',
                  Call_f Msat_make_minimize (Converted ''msat_x'') [],
                  Msat_assert_objective 3]) \<and>
   assert_goals example_solver [Goal Minimize ''x'' []] [] [Msat_set_opt_priority ''box'']
     = (Inr [3], [Msat_set_opt_priority ''box'', Convert ''x'',
                  Call_f Msat_make_minimize (Converted ''msat_x'') [],
                  Msat_assert_objective 3]) \<and>
   optimize example_solver (Goal Unsupported ''u'' []) []
     = (Inl (GoalNotSupportedError ''optimathsat'' (Goal Unsupported ''u'' [])), []) \<and>
   lexicographic_optimize example_solver
       [Goal Minimize ''x'' [], Goal Unsupported ''u'' [], Goal Maximize ''y'' []] []
     = (Inl (GoalNotSupportedError ''optimathsat'' (Goal Unsupported ''u'' [])),
        [Msat_set_opt_priority ''lex'', Convert ''x'',
         Call_f Msat_make_minimize (Converted ''msat_x'') [], Msat_assert_objective 3]) \<and>
   pareto_optimize example_solver
       [Goal Minimize ''x'' [], Goal Unsupported ''u'' [], Goal Maximize ''y'' []] []
     = (Inl (GoalNotSupportedError ''optimathsat'' (Goal Unsupported ''u'' [])),
        [Msat_set_opt_priority ''par'', Convert ''x'',
         Call_f Msat_make_minimize (Converted ''msat_x'') [], Msat_assert_objective 3]) \<and>
   next_boxed example_solver
       (boxed_optimization
          [Goal Minimize ''x'' [], Goal Unsupported ''u'' [], Goal Maximize ''y'' []]) []
     = ((Raised (GoalNotSupportedError ''optimathsat'' (Goal Unsupported ''u'' [])), Finished),
        [Msat_set_opt_priority ''box'', Convert ''x'',
         Call_f Msat_make_minimize (Converted ''msat_x'') [], Msat_assert_objective 3])"
proof -
  have h: "tag (Goal Unsupported ''u'' []) = Unsupported" by simp
  have a: "assert_goals example_solver [Goal Minimize ''x'' []] [] [Msat_set_opt_priority p]
     = (Inr [3], [Msat_set_opt_priority p, Convert ''x'',
                  Call_f Msat_make_minimize (Converted ''msat_x'') [],
                  Msat_assert_objective 3])" for p
    by (simp add: run_defs)
  from unsupported_goal_raises [OF h, where be = example_solver and log = "[]"
      and pre = "[Goal Minimize ''x'' []]" and post = "[Goal Maximize ''y'' []]"
      and objs_lex = "[3]" and objs_par = "[3]" and objs_box = "[3]"
      and log_lex = "[Msat_set_opt_priority ''lex'', Convert ''x'',
                  Call_f Msat_make_minimize (Converted ''msat_x'') [],
                  Msat_assert_objective 3]"
      and log_par = "[Msat_set_opt_priority ''par'', Convert ''x'',
                  Call_f Msat_make_minimize (Converted ''msat_x'') [],
                  Msat_assert_objective 3]"
      and log_box = "[Msat_set_opt_priority ''box'', Convert ''x'',
                  Call_f Msat_make_minimize (Converted ''msat_x'') [],
                  Msat_assert_objective 3]"]
  show ?thesis using h a by simp
qed

text \<open>
  Claim C1 does not hold for \<^verbatim>\<open>lexicographic_optimize\<close>, \<^verbatim>\<open>pareto_optimize\<close> and
  \<^verbatim>\<open>boxed_optimization\<close>. For a MinMax or MaxMin goal with the terms \<open>x\<close> and \<open>y\<close>, both terms
  are converted, but the loop that converts them has rebound \<^verbatim>\<open>f\<close>: the object applied to
  the converted sequence is the term \<open>y\<close>, not the constructor \<^verbatim>\<open>msat_make_minmax\<close> or
  \<^verbatim>\<open>msat_make_maxmin\<close>, and with a term that cannot be applied nothing is asserted.
  \<^verbatim>\<open>optimize\<close> keeps the constructor in \<^verbatim>\<open>make_fun\<close> and does apply it.
\<close>

theorem vector_objective_callee:
  "lexicographic_optimize example_solver [Goal MinMax ''z'' [''x'', ''y'']] []
     = (Inl (TermCallError ''y''),
        [Msat_set_opt_priority ''lex'', Convert ''x'', Convert ''y'',
         Call_f (Term_object ''y'') (Converted_list [''msat_x'', ''msat_y'']) []]) \<and>
   pareto_optimize example_solver [Goal MinMax ''z'' [''x'', ''y'']] []
     = (Inl (TermCallError ''y''),
        [Msat_set_opt_priority ''par'', Convert ''x'', Convert ''y'',
         Call_f (Term_object ''y'') (Converted_list [''msat_x'', ''msat_y'']) []]) \<and>
   next_boxed example_solver (boxed_optimization [Goal MaxMin ''z'' [''x'', ''y'']]) []
     = ((Raised (TermCallError ''y''), Finished),
        [Msat_set_opt_priority ''box'', Convert ''x'', Convert ''y'',
         Call_f (Term_object ''y'') (Converted_list [''msat_x'', ''msat_y'']) []]) \<and>
   optimize_objective example_solver (Goal MinMax ''z'' [''x'', ''y'']) []
     = (Inr 3,
        [Convert ''x'', Convert ''y'',
         Call_f Msat_make_minmax (Converted_list [''msat_x'', ''msat_y'']) [False]])"
  by (simp add: run_defs)

section \<open>Lexicographic optimization\<close>

text \<open>
  For goals that are all Minimize or Maximize goals, \<^verbatim>\<open>lexicographic_optimize\<close> asserts every
  objective, runs exactly one check, and returns either one model with its values of the
  cost terms of the goals, in the order of the goals, or the pair of two \<^verbatim>\<open>None\<close>.
\<close>

lemma lexicographic_scalar_goals:
  assumes "\<forall>g\<in>set goals. tag g = Minimize \<or> tag g = Maximize"
  shows "\<exists>objs log1.
           assert_goals be goals [] (log @ [Msat_set_opt_priority ''lex'']) = (Inr objs, log1) \<and>
           checks be log (drop (length log) (snd (lexicographic_optimize be goals log)))
             = [solve be (log1 @ [Solve])] \<and>
           lexicographic_optimize be goals log =
             (if solve be (log1 @ [Solve]) then
                (Inr (Some (get_model be (log1 @ [Solve, Get_model])),
                      Some (map (\<lambda>x. get_value be (get_model be (log1 @ [Solve, Get_model]))
                                        (goal_term x)) goals)),
                 log1 @ [Solve, Get_model])
              else (Inr (None, None), log1 @ [Solve]))"
proof -
  let ?log0 = "log @ [Msat_set_opt_priority ''lex'']"
  from assert_goals_scalar [OF assms, of be "[]" ?log0] obtain objs log1
    where a: "assert_goals be goals [] ?log0 = (Inr objs, log1)" by blast
  from assert_goals_log [OF a] obtain e1 where e1: "log1 = ?log0 @ e1" "Solve \<notin> set e1"
    by blast
  then have ne1: "Solve \<notin> set (Msat_set_opt_priority ''lex'' # e1)" by simp
  have r: "lexicographic_optimize be goals log =
             (if solve be (log1 @ [Solve]) then
                (Inr (Some (get_model be (log1 @ [Solve, Get_model])),
                      Some (map (\<lambda>x. get_value be (get_model be (log1 @ [Solve, Get_model]))
                                        (goal_term x)) goals)),
                 log1 @ [Solve, Get_model])
              else (Inr (None, None), log1 @ [Solve]))"
    using a by (simp add: lexicographic_optimize_def Let_def)
  have "\<exists>t. snd (lexicographic_optimize be goals log) = log1 @ Solve # t \<and> Solve \<notin> set t"
    unfolding r by simp
  then obtain t where t: "snd (lexicographic_optimize be goals log) = log1 @ Solve # t"
    "Solve \<notin> set t" by blast
  have d: "drop (length log) (snd (lexicographic_optimize be goals log))
          = (Msat_set_opt_priority ''lex'' # e1) @ (Solve # t)"
    using t e1 by simp
  have c1: "checks be log (Msat_set_opt_priority ''lex'' # e1) = []"
    by (rule checks_no_solve [OF ne1])
  have c2: "checks be (log @ Msat_set_opt_priority ''lex'' # e1) (Solve # t)
          = [solve be (log1 @ [Solve])]"
    using checks_no_solve [OF t(2)] e1 by simp
  have "checks be log (drop (length log) (snd (lexicographic_optimize be goals log)))
          = [solve be (log1 @ [Solve])]"
    unfolding d checks_append c1 c2 by simp
  with a r show ?thesis by blast
qed

text \<open>
  Claim C6 does not hold for every sequence of supported goals. For a MaxMin goal with one
  term \<open>x\<close>, the object applied to build the objective is the term \<open>x\<close>; when that application
  raises, \<^verbatim>\<open>lexicographic_optimize\<close> raises too, and it has run no check at all.
\<close>

theorem lexicographic_vector_goal_raises:
  "lexicographic_optimize example_solver [Goal MaxMin ''z'' [''x'']] []
     = (Inl (TermCallError ''x''),
        [Msat_set_opt_priority ''lex'', Convert ''x'',
         Call_f (Term_object ''x'') (Converted_list [''msat_x'']) []]) \<and>
   checks example_solver []
        [Msat_set_opt_priority ''lex'', Convert ''x'',
         Call_f (Term_object ''x'') (Converted_list [''msat_x'']) []] = []"
  by (simp add: run_defs)

section \<open>Pareto optimization\<close>

text \<open>
  The loop of \<^verbatim>\<open>pareto_optimize\<close>: it leaves through \<^verbatim>\<open>return None\<close> right after the first
  check that fails, all checks before having succeeded; otherwise it runs one successful
  check for each goal.
\<close>

lemma pareto_loop_checks:
  assumes "pareto_loop be goals models log = (r, log')"
  shows "\<exists>evs. log' = log @ evs \<and>
           (case r of
              Returned x \<Rightarrow> x = None \<and> evs \<noteq> [] \<and> last evs = Solve \<and>
                (\<exists>k<length goals. checks be log evs = replicate k True @ [False])
            | Fell_through ms \<Rightarrow> checks be log evs = replicate (length goals) True)"
  using assms
proof (induction goals arbitrary: models log)
  case Nil
  then show ?case by auto
next
  case (Cons goal rest)
  show ?case
  proof (cases "solve be (log @ [Solve])")
    case False
    with Cons.prems have "r = Returned None" "log' = log @ [Solve]"
      by (simp_all add: Let_def)
    moreover from False have "checks be log [Solve] = replicate 0 True @ [False]" by simp
    ultimately show ?thesis by force
  next
    case True
    let ?log2 = "log @ [Solve, Get_model]"
    from True Cons.prems obtain models' where
      "pareto_loop be rest models' ?log2 = (r, log')"
      by (simp add: Let_def)
    from Cons.IH [OF this] obtain evs where evs: "log' = ?log2 @ evs"
      and c: "(case r of
              Returned x \<Rightarrow> x = None \<and> evs \<noteq> [] \<and> last evs = Solve \<and>
                (\<exists>k<length rest. checks be ?log2 evs = replicate k True @ [False])
            | Fell_through ms \<Rightarrow> checks be ?log2 evs = replicate (length rest) True)"
      by blast
    have log': "log' = log @ (Solve # Get_model # evs)" using evs by simp
    have ch: "checks be log (Solve # Get_model # evs) = True # checks be ?log2 evs"
      using True by simp
    show ?thesis
    proof (cases r)
      case (Returned x)
      with c obtain k where k: "x = None" "evs \<noteq> []" "last evs = Solve" "k < length rest"
        "checks be ?log2 evs = replicate k True @ [False]" by auto
      then have "Suc k < length (goal # rest)"
        "checks be log (Solve # Get_model # evs) = replicate (Suc k) True @ [False]"
        using ch by simp_all
      with k log' Returned show ?thesis
        by (intro exI [of _ "Solve # Get_model # evs"]) auto
    next
      case (Fell_through ms)
      with c ch have "checks be log (Solve # Get_model # evs)
                        = replicate (length (goal # rest)) True" by simp
      with log' Fell_through show ?thesis
        by (intro exI [of _ "Solve # Get_model # evs"]) simp
    qed
  qed
qed

text \<open>
  Claim C2 does not hold. With one Minimize goal and a check that succeeds, the loop ends
  with the dictionary that maps the goal to the model and its value of the cost term, but
  \<^verbatim>\<open>pareto_optimize\<close> returns \<^verbatim>\<open>None\<close>: the dictionary is never returned.
\<close>

theorem pareto_returns_none:
  "pareto_loop example_solver [Goal Minimize ''x'' []] Map.empty
       [Msat_set_opt_priority ''par'', Convert ''x'',
        Call_f Msat_make_minimize (Converted ''msat_x'') [], Msat_assert_objective 3]
     = (Fell_through [Goal Minimize ''x'' [] \<mapsto> (6, 7)],
        [Msat_set_opt_priority ''par'', Convert ''x'',
         Call_f Msat_make_minimize (Converted ''msat_x'') [], Msat_assert_objective 3,
         Solve, Get_model]) \<and>
   pareto_optimize example_solver [Goal Minimize ''x'' []] []
     = (Inr None,
        [Msat_set_opt_priority ''par'', Convert ''x'',
         Call_f Msat_make_minimize (Converted ''msat_x'') [], Msat_assert_objective 3,
         Solve, Get_model])"
  by (simp add: run_defs eval_nat_numeral)

text \<open>
  Claim C7. If any check made by \<^verbatim>\<open>pareto_optimize\<close> fails, the call returns \<^verbatim>\<open>None\<close>, and the
  failed check is the last call it makes: it returns immediately. The checks before the
  failed one, fewer than there are goals, have all succeeded, and their results are not
  returned.
\<close>

theorem pareto_failed_check:
  assumes "pareto_optimize be goals log = (r, log')"
    and "False \<in> set (checks be log (drop (length log) log'))"
  shows "r = Inr None \<and> last log' = Solve \<and>
         (\<exists>k<length goals.
            checks be log (drop (length log) log') = replicate k True @ [False])"
proof -
  let ?log0 = "log @ [Msat_set_opt_priority ''par'']"
  obtain a log1 where a: "assert_goals be goals [] ?log0 = (a, log1)"
    by (cases "assert_goals be goals [] ?log0")
  from assert_goals_log [OF a] obtain e1 where e1: "log1 = ?log0 @ e1" "Solve \<notin> set e1"
    by blast
  then have ne1: "Solve \<notin> set (Msat_set_opt_priority ''par'' # e1)" by simp
  show ?thesis
  proof (cases a)
    case (Inl e)
    with a assms(1) have "log' = log @ (Msat_set_opt_priority ''par'' # e1)"
      using e1 by (simp add: pareto_optimize_def)
    then have "checks be log (drop (length log) log') = []"
      using checks_no_solve [OF ne1] by simp
    with assms(2) show ?thesis by simp
  next
    case (Inr objs)
    obtain x log2 where l: "pareto_loop be goals Map.empty log1 = (x, log2)"
      by (cases "pareto_loop be goals Map.empty log1")
    from pareto_loop_checks [OF l] obtain evs where evs: "log2 = log1 @ evs"
      and c: "(case x of
              Returned y \<Rightarrow> y = None \<and> evs \<noteq> [] \<and> last evs = Solve \<and>
                (\<exists>k<length goals. checks be log1 evs = replicate k True @ [False])
            | Fell_through ms \<Rightarrow> checks be log1 evs = replicate (length goals) True)"
      by blast
    from Inr a l assms(1) have log': "log' = log2"
      and r: "r = (case x of Returned y \<Rightarrow> Inr y | Fell_through ms \<Rightarrow> Inr None)"
      by (auto simp: pareto_optimize_def split: loop_exit.splits)
    have d: "drop (length log) log' = (Msat_set_opt_priority ''par'' # e1) @ evs"
      using log' evs e1 by simp
    have ch: "checks be log (drop (length log) log') = checks be log1 evs"
      unfolding d checks_append using checks_no_solve [OF ne1] e1 by simp
    show ?thesis
    proof (cases x)
      case (Returned y)
      with c r ch log' evs show ?thesis by auto
    next
      case (Fell_through ms)
      with c ch assms(2) show ?thesis by simp
    qed
  qed
qed

theorem pareto_failed_check_witness:
  "pareto_optimize example_solver
       [Goal Minimize ''x'' [], Goal Maximize ''y'' [], Goal Minimize ''w'' []] []
     = (Inr None,
        [Msat_set_opt_priority ''par'', Convert ''x'',
         Call_f Msat_make_minimize (Converted ''msat_x'') [], Msat_assert_objective 3,
         Convert ''y'', Call_f Msat_make_maximize (Converted ''msat_y'') [],
         Msat_assert_objective 6, Convert ''w'',
         Call_f Msat_make_minimize (Converted ''msat_w'') [], Msat_assert_objective 9,
         Solve, Get_model, Solve, Get_model, Solve]) \<and>
   checks example_solver []
        [Msat_set_opt_priority ''par'', Convert ''x'',
         Call_f Msat_make_minimize (Converted ''msat_x'') [], Msat_assert_objective 3,
         Convert ''y'', Call_f Msat_make_maximize (Converted ''msat_y'') [],
         Msat_assert_objective 6, Convert ''w'',
         Call_f Msat_make_minimize (Converted ''msat_w'') [], Msat_assert_objective 9,
         Solve, Get_model, Solve, Get_model, Solve] = [True, True, False]"
proof -
  let ?gs = "[Goal Minimize ''x'' [], Goal Maximize ''y'' [], Goal Minimize ''w'' []]"
  let ?log = "[Msat_set_opt_priority ''par'', Convert ''x'',
         Call_f Msat_make_minimize (Converted ''msat_x'') [], Msat_assert_objective 3,
         Convert ''y'', Call_f Msat_make_maximize (Converted ''msat_y'') [],
         Msat_assert_objective (6::nat), Convert ''w'',
         Call_f Msat_make_minimize (Converted ''msat_w'') [], Msat_assert_objective 9,
         Solve, Get_model, Solve, Get_model, Solve]"
  have h1: "pareto_optimize example_solver ?gs [] = (Inr None, ?log)"
    by (simp add: run_defs)
  have c: "checks example_solver [] ?log = [True, True, False]"
    by (simp add: example_solver_def)
  then have h2: "False \<in> set (checks example_solver [] (drop (length []) ?log))" by simp
  from pareto_failed_check [OF h1 h2] h1 c show ?thesis by simp
qed

section \<open>Boxed optimization\<close>

text \<open>
  Iterating a finished generator gives \<^verbatim>\<open>StopIteration\<close> and calls no collaborator. Iterating
  a suspended generator yields one model for each successful check, until a check fails.
\<close>

lemma iterate_Finished: "iterate be n Finished log = (replicate n StopIteration, Finished, log)"
  by (induction n) auto

lemma iterate_Suspended:
  assumes "iterate be n Suspended log = (rs, gen', log')"
  shows "\<exists>ms rest evs. log' = log @ evs \<and> rs = map Yielded ms @ rest \<and>
           (rest = [] \<and> gen' = Suspended \<or>
            gen' = Finished \<and> (\<exists>k. rest = StopIteration # replicate k StopIteration)) \<and>
           checks be log evs = replicate (length ms) True @ (if rest = [] then [] else [False])"
  using assms
proof (induction n arbitrary: log rs gen' log')
  case 0
  then have "log' = log @ []" "rs = map Yielded [] @ []" "gen' = Suspended" by simp_all
  then show ?case by (intro exI [of _ "[]"]) simp
next
  case (Suc n)
  let ?log2 = "log @ [Solve, Get_model]"
  show ?case
  proof (cases "solve be (log @ [Solve])")
    case False
    with Suc.prems have "rs = StopIteration # replicate n StopIteration" "gen' = Finished"
      "log' = log @ [Solve, Get_model]"
      by (simp_all add: boxed_check_def Let_def iterate_Finished)
    moreover have "checks be log [Solve, Get_model] = replicate (length []) True @ [False]"
      using False by simp
    ultimately show ?thesis
      by (intro exI [of _ "[]"] exI [of _ "StopIteration # replicate n StopIteration"]
          exI [of _ "[Solve, Get_model]"]) auto
  next
    case True
    obtain rs1 g1 l1 where it: "iterate be n Suspended ?log2 = (rs1, g1, l1)"
      by (cases "iterate be n Suspended ?log2")
    with True Suc.prems have eq: "rs = Yielded (get_model be ?log2) # rs1" "gen' = g1"
      "log' = l1"
      by (simp_all add: boxed_check_def Let_def)
    from Suc.IH [OF it] obtain ms rest evs where ih: "l1 = ?log2 @ evs"
      "rs1 = map Yielded ms @ rest"
      "rest = [] \<and> g1 = Suspended \<or>
         g1 = Finished \<and> (\<exists>k. rest = StopIteration # replicate k StopIteration)"
      "checks be ?log2 evs = replicate (length ms) True @ (if rest = [] then [] else [False])"
      by blast
    have "log' = log @ (Solve # Get_model # evs)" using eq ih by simp
    moreover have "rs = map Yielded (get_model be ?log2 # ms) @ rest" using eq ih by simp
    moreover have "checks be log (Solve # Get_model # evs)
        = replicate (length (get_model be ?log2 # ms)) True
            @ (if rest = [] then [] else [False])"
      using True ih(4) by simp
    ultimately show ?thesis using ih(3) eq(2) by blast
  qed
qed

lemma iterate_Created:
  assumes "assert_goals be goals [] (log @ [Msat_set_opt_priority ''box'']) = (Inr objs, log1)"
  shows "iterate be (Suc n) (Created goals) log = iterate be (Suc n) Suspended log1"
  using assms by simp

text \<open>
  The shape of any number of iterations of the generator of \<^verbatim>\<open>boxed_optimization\<close>: models,
  then possibly one result that is no model followed by \<^verbatim>\<open>StopIteration\<close> only; one successful
  check for each model, and one failed check when the sequence ended at a check.
\<close>

lemma boxed_iteration_shape:
  assumes "iterate be n (boxed_optimization goals) log = (rs, gen', log')"
  shows "\<exists>ms rest.
           rs = map Yielded ms @ rest \<and>
           (rest = [] \<or>
            gen' = Finished \<and>
            (\<exists>x k. rest = x # replicate k StopIteration \<and> (\<forall>m. x \<noteq> Yielded m))) \<and>
           checks be log (drop (length log) log')
             = replicate (length ms) True
                 @ (case rest of StopIteration # tail \<Rightarrow> [False] | _ \<Rightarrow> [])"
proof (cases n)
  case 0
  with assms have "rs = map Yielded [] @ []" "log' = log"
    by (simp_all add: boxed_optimization_def)
  then show ?thesis by (intro exI [of _ "[]"]) simp
next
  case (Suc k)
  let ?log0 = "log @ [Msat_set_opt_priority ''box'']"
  obtain a log1 where a: "assert_goals be goals [] ?log0 = (a, log1)"
    by (cases "assert_goals be goals [] ?log0")
  from assert_goals_log [OF a] obtain e1 where e1: "log1 = ?log0 @ e1" "Solve \<notin> set e1"
    by blast
  then have ne1: "Solve \<notin> set (Msat_set_opt_priority ''box'' # e1)" by simp
  show ?thesis
  proof (cases a)
    case (Inl e)
    with a assms Suc have "rs = map Yielded [] @ (Raised e # replicate k StopIteration)"
      "gen' = Finished" "log' = log @ (Msat_set_opt_priority ''box'' # e1)"
      using e1 by (simp_all add: boxed_optimization_def iterate_Finished)
    moreover from this have "checks be log (drop (length log) log') = []"
      using checks_no_solve [OF ne1] by simp
    ultimately show ?thesis
      by (intro exI [of _ "[]"] exI [of _ "Raised e # replicate k StopIteration"]) auto
  next
    case (Inr objs)
    with a have "iterate be (Suc k) (Created goals) log = iterate be (Suc k) Suspended log1"
      by (intro iterate_Created) simp
    with assms Suc have "iterate be (Suc k) Suspended log1 = (rs, gen', log')"
      by (simp add: boxed_optimization_def)
    from iterate_Suspended [OF this] obtain ms rest evs where s: "log' = log1 @ evs"
      "rs = map Yielded ms @ rest"
      "rest = [] \<and> gen' = Suspended \<or>
         gen' = Finished \<and> (\<exists>j. rest = StopIteration # replicate j StopIteration)"
      "checks be log1 evs = replicate (length ms) True @ (if rest = [] then [] else [False])"
      by blast
    have d: "drop (length log) log' = (Msat_set_opt_priority ''box'' # e1) @ evs"
      using s(1) e1 by simp
    have ch: "checks be log (drop (length log) log') = checks be log1 evs"
      unfolding d checks_append using checks_no_solve [OF ne1] e1 by simp
    from s(3) have "checks be log1 evs = replicate (length ms) True
                 @ (case rest of StopIteration # tail \<Rightarrow> [False] | _ \<Rightarrow> [])"
      using s(4) by auto
    moreover from s(3) have "rest = [] \<or>
            gen' = Finished \<and>
            (\<exists>x k. rest = x # replicate k StopIteration \<and> (\<forall>m. x \<noteq> Yielded m))"
      by auto
    ultimately show ?thesis using s(2) ch by auto
  qed
qed

text \<open>
  The iterations of a suspended generator are those of the lazy sequence of the
  specification, model for model; so are the iterations of the generator of
  \<^verbatim>\<open>boxed_optimization\<close> for goals that are all Minimize or Maximize goals, after their
  objectives have been asserted.
\<close>

lemma iterate_Suspended_spec: "fst (iterate be n Suspended log) = boxed_spec be n log"
proof (induction n arbitrary: log)
  case 0
  show ?case by simp
next
  case (Suc n)
  show ?case
  proof (cases "solve be (log @ [Solve])")
    case True
    have "fst (iterate be (Suc n) Suspended log)
            = Yielded (get_model be (log @ [Solve, Get_model]))
                # fst (iterate be n Suspended (log @ [Solve, Get_model]))"
      using True by (simp add: boxed_check_def Let_def split: prod.splits)
    with True Suc.IH show ?thesis by simp
  next
    case False
    then show ?thesis
      by (simp add: boxed_check_def Let_def iterate_Finished)
  qed
qed

lemma boxed_scalar_goals:
  assumes "\<forall>g\<in>set goals. tag g = Minimize \<or> tag g = Maximize"
  shows "\<exists>objs log1.
           assert_goals be goals [] (log @ [Msat_set_opt_priority ''box'']) = (Inr objs, log1) \<and>
           fst (iterate be (Suc n) (boxed_optimization goals) log) = boxed_spec be (Suc n) log1"
proof -
  from assert_goals_scalar [OF assms, of be "[]" "log @ [Msat_set_opt_priority ''box'']"]
  obtain objs log1
    where a: "assert_goals be goals [] (log @ [Msat_set_opt_priority ''box''])
                = (Inr objs, log1)" by blast
  have "iterate be (Suc n) (boxed_optimization goals) log = iterate be (Suc n) Suspended log1"
    unfolding boxed_optimization_def by (rule iterate_Created [OF a])
  then have "fst (iterate be (Suc n) (boxed_optimization goals) log)
               = boxed_spec be (Suc n) log1"
    by (simp only: iterate_Suspended_spec)
  with a show ?thesis by blast
qed

text \<open>
  Claim C8 does not hold for every sequence of supported goals. For a MinMax goal with the
  terms \<open>x\<close> and \<open>y\<close>, the first \<^verbatim>\<open>next\<close> applies the term \<open>y\<close> to build the objective and
  raises: the sequence ends by this exception, before any check has run and without a
  model, although the check of the session would have succeeded.
\<close>

theorem boxed_vector_goal_raises:
  "iterate example_solver 3 (boxed_optimization [Goal MinMax ''z'' [''x'', ''y'']]) []
     = ([Raised (TermCallError ''y''), StopIteration, StopIteration], Finished,
        [Msat_set_opt_priority ''box'', Convert ''x'', Convert ''y'',
         Call_f (Term_object ''y'') (Converted_list [''msat_x'', ''msat_y'']) []]) \<and>
   checks example_solver []
        [Msat_set_opt_priority ''box'', Convert ''x'', Convert ''y'',
         Call_f (Term_object ''y'') (Converted_list [''msat_x'', ''msat_y'']) []] = [] \<and>
   solve example_solver
        [Msat_set_opt_priority ''box'', Convert ''x'', Convert ''y'',
         Call_f (Term_object ''y'') (Converted_list [''msat_x'', ''msat_y'']) [], Solve]"
  by (simp add: run_defs eval_nat_numeral)

section \<open>The comparison helper on supported types\<close>

text \<open>
  On an integer or real term \<^verbatim>\<open>_le\<close> is \<^verbatim>\<open>mgr.LE\<close>, on a bit-vector term \<^verbatim>\<open>mgr.BVULE\<close>:
  it returns the formula built, or raises what the formula manager raises.
\<close>

lemma le_int_real:
  assumes "is_int_type env (get_type env x) \<or> is_real_type env (get_type env x)"
  shows "le env x y = (case LE env x y of Inl e \<Rightarrow> Inl e | Inr fm \<Rightarrow> Inr (Some fm))"
  using assms by (simp add: le_def)

lemma le_example_type_error: "le example_environment ''x'' ''p'' = Inl PysmtTypeError"
  by (simp add: le_def example_environment_def example_type_def)

section \<open>The comparison helper on unsupported types\<close>

text \<open>
  Claim C10. When the type of \<open>x\<close> is neither an integer, a real nor a bit-vector type (a
  Boolean, for one), \<^verbatim>\<open>_le\<close> takes neither branch and returns \<^verbatim>\<open>None\<close>: no comparison
  formula is built and nothing is raised.
\<close>

theorem le_unsupported_type:
  assumes "\<not> is_int_type env (get_type env x)"
    and "\<not> is_real_type env (get_type env x)"
    and "\<not> is_bv_type env (get_type env x)"
  shows "le env x y = Inr None"
  using assms by (simp add: le_def)

theorem le_unsupported_type_witness:
  "\<not> is_int_type example_environment (get_type example_environment ''p'')
   \<and> \<not> is_real_type example_environment (get_type example_environment ''p'')
   \<and> \<not> is_bv_type example_environment (get_type example_environment ''p'')
   \<and> le example_environment ''p'' ''q'' = Inr None"
proof -
  have a: "\<not> is_int_type example_environment (get_type example_environment ''p'')"
    and b: "\<not> is_real_type example_environment (get_type example_environment ''p'')"
    and c: "\<not> is_bv_type example_environment (get_type example_environment ''p'')"
    by (simp_all add: example_environment_def example_type_def)
  from a b c le_unsupported_type [OF a b c, of "''q''"] show ?thesis by simp
qed

end
